theory Spec2Isabelle
  imports Main "HOL-Library.Word"
begin

unbundle bit_operations_syntax

section \<open>The aralog logger: a shallow embedding of aralog.go\<close>

text \<open>
  Go strings and byte slices are byte sequences: they are modelled as \<^typ>\<open>string\<close>
  (a list of 8-bit characters). Go's \<open>int\<close> is the 64-bit signed integer and \<open>uint\<close> the
  64-bit unsigned one; values of type \<open>int\<close> are carried as \<^typ>\<open>int\<close> with the
  conversions and the wrap-around written out where the code converts or counts, and the
  two \<open>uint\<close> fields of the Logger are \<^typ>\<open>64 word\<close>.
\<close>

subsection \<open>Flags (the const block of aralog.go)\<close>

definition Ldate :: int where "Ldate = 1"
definition Ltime :: int where "Ltime = 2"
definition Lmicroseconds :: int where "Lmicroseconds = 4"
definition Llongfile :: int where "Llongfile = 8"
definition Lshortfile :: int where "Lshortfile = 16"
definition LstdFlags :: int where "LstdFlags = Ldate OR Ltime"

subsection \<open>What the code uses of the Go language and library\<close>

text \<open>
  A \<open>time.Time\<close> value, as far as the code reads it: the results of \<open>Date()\<close>,
  \<open>Clock()\<close>, \<open>Nanosecond()\<close> and \<open>Unix()\<close>.
\<close>

record gotime =
  Year :: int
  Month :: int
  Day :: int
  Hour :: int
  Minute :: int
  Second :: int
  Nanosecond :: int
  Unix :: int

text \<open>The ranges the \<open>time\<close> package documents for the fields of a wall-clock time.\<close>

definition valid_time :: "gotime \<Rightarrow> bool" where
  "valid_time t \<longleftrightarrow>
     0 \<le> Year t \<and> Year t < 2 ^ 63 \<and> 1 \<le> Month t \<and> Month t \<le> 12 \<and>
     1 \<le> Day t \<and> Day t \<le> 31 \<and> 0 \<le> Hour t \<and> Hour t \<le> 23 \<and>
     0 \<le> Minute t \<and> Minute t \<le> 59 \<and> 0 \<le> Second t \<and> Second t \<le> 59 \<and>
     0 \<le> Nanosecond t \<and> Nanosecond t \<le> 999999999"

text \<open>
  The Go conversion \<open>string(i)\<close> of an integer \<open>i\<close>: the UTF-8 encoding of the code
  point \<open>i\<close>; a value that is no valid code point (negative, above \<open>0x10FFFF\<close>, or a
  surrogate) gives the encoding of \<open>U+FFFD\<close>.
\<close>

definition utf8_encode :: "nat \<Rightarrow> string" where
  "utf8_encode r =
     (if r < 0x80 then [char_of r]
      else if r < 0x800 then [char_of (0xC0 + r div 64), char_of (0x80 + r mod 64)]
      else if r < 0x10000 then
        [char_of (0xE0 + r div 4096), char_of (0x80 + r div 64 mod 64), char_of (0x80 + r mod 64)]
      else
        [char_of (0xF0 + r div 262144), char_of (0x80 + r div 4096 mod 64),
         char_of (0x80 + r div 64 mod 64), char_of (0x80 + r mod 64)])"

definition go_string :: "int \<Rightarrow> string" where
  "go_string i =
     (if 0 \<le> i \<and> i \<le> 0x10FFFF \<and> \<not> (0xD800 \<le> i \<and> i \<le> 0xDFFF) then utf8_encode (nat i)
      else utf8_encode 0xFFFD)"

text \<open>Go's integer division \<open>a / b\<close>, which truncates towards zero.\<close>

definition quo :: "int \<Rightarrow> int \<Rightarrow> int" where
  "quo a b = (if (a < 0) = (b < 0) then \<bar>a\<bar> div \<bar>b\<bar> else - (\<bar>a\<bar> div \<bar>b\<bar>))"

text \<open>
  Errors of the \<open>os\<close> package: \<open>*PathError\<close> (operation, path, cause) and
  \<open>*LinkError\<close> (operation, old path, new path, cause), with their \<open>Error()\<close> text.
\<close>

datatype errno = ENOENT | ErrClosed | ErrInvalid

datatype error = PathError string string errno | LinkError string string string errno

fun errno_Error :: "errno \<Rightarrow> string" where
  "errno_Error ENOENT = ''no such file or directory''"
| "errno_Error ErrClosed = ''file already closed''"
| "errno_Error ErrInvalid = ''invalid argument''"

fun Error :: "error \<Rightarrow> string" where
  "Error (PathError op' name e) = op' @ '' '' @ name @ '': '' @ errno_Error e"
| "Error (LinkError op' old new e) = op' @ '' '' @ old @ '' '' @ new @ '': '' @ errno_Error e"

text \<open>
  The file system and the process. \<open>files\<close> is the directory (path to file), \<open>contents\<close>
  the bytes of each file, \<open>handles\<close> the \<open>os.File\<close> values opened so far (an
  \<open>*os.File\<close> is an index into it; a handle keeps referring to its file when the path is
  renamed), and \<open>currentOutFile\<close> is the package-level variable of aralog.go
  (\<open>None\<close> is \<open>nil\<close>).
\<close>

datatype open_flag = O_WRONLY | O_APPEND | O_CREATE

record os_file =
  f_name :: string
  f_inode :: nat
  f_flags :: "open_flag set"
  f_closed :: bool

record state =
  files :: "string \<rightharpoonup> nat"
  contents :: "nat \<Rightarrow> string"
  inodes :: nat
  handles :: "os_file list"
  currentOutFile :: "nat option"

text \<open>
  \<open>os.OpenFile(name, flags, 0600)\<close>: an existing file is opened; an absent one is
  created only under \<open>O_CREATE\<close>, and is the error \<open>ENOENT\<close> otherwise.
\<close>

definition OpenFile :: "string \<Rightarrow> open_flag set \<Rightarrow> state \<Rightarrow> state \<times> (error + nat)" where
  "OpenFile name flags st =
     (case files st name of
        Some ino \<Rightarrow>
          (st\<lparr>handles := handles st @
                 [\<lparr>f_name = name, f_inode = ino, f_flags = flags, f_closed = False\<rparr>]\<rparr>,
           Inr (length (handles st)))
      | None \<Rightarrow>
          if O_CREATE \<in> flags then
            (st\<lparr>files := (files st)(name \<mapsto> inodes st),
                contents := (contents st)(inodes st := []),
                inodes := Suc (inodes st),
                handles := handles st @
                  [\<lparr>f_name = name, f_inode = inodes st, f_flags = flags, f_closed = False\<rparr>]\<rparr>,
             Inr (length (handles st)))
          else (st, Inl (PathError ''open'' name ENOENT)))"

text \<open>\<open>(*os.File).Close\<close>: closing a handle twice is the error \<open>ErrClosed\<close>.\<close>

definition Close :: "nat \<Rightarrow> state \<Rightarrow> state \<times> error option" where
  "Close f st =
     (if f < length (handles st) then
        (if f_closed (handles st ! f) then
           (st, Some (PathError ''close'' (f_name (handles st ! f)) ErrClosed))
         else (st\<lparr>handles := (handles st)[f := (handles st ! f)\<lparr>f_closed := True\<rparr>]\<rparr>, None))
      else (st, Some (PathError ''close'' [] ErrInvalid)))"

text \<open>\<open>os.Rename(old, new)\<close>: fails when nothing is at \<open>old\<close>; replaces what is at \<open>new\<close>.\<close>

definition Rename :: "string \<Rightarrow> string \<Rightarrow> state \<Rightarrow> state \<times> error option" where
  "Rename old new st =
     (case files st old of
        None \<Rightarrow> (st, Some (LinkError ''rename'' old new ENOENT))
      | Some ino \<Rightarrow> (st\<lparr>files := ((files st)(old := None))(new \<mapsto> ino)\<rparr>, None))"

text \<open>
  \<open>Write\<close> on a handle opened with \<open>O_APPEND\<close> (the only mode this package opens
  files in): the bytes go to the end of the file; a closed handle is the error
  \<open>ErrClosed\<close>.
\<close>

definition Write :: "nat \<Rightarrow> string \<Rightarrow> state \<Rightarrow> state \<times> error option" where
  "Write f b st =
     (if f < length (handles st) then
        (if f_closed (handles st ! f) then
           (st, Some (PathError ''write'' (f_name (handles st ! f)) ErrClosed))
         else
           (st\<lparr>contents := (contents st)
                 (f_inode (handles st ! f) := contents st (f_inode (handles st ! f)) @ b)\<rparr>,
            None))
      else (st, Some (PathError ''write'' [] ErrInvalid)))"

subsection \<open>The Logger\<close>

text \<open>
  The struct of aralog.go without its mutex (the model is sequential). \<open>out\<close> is the
  handle of the sink; the field \<open>size\<close> is named \<open>size_l\<close> here.
\<close>

record Logger =
  prefix :: string
  flag :: int
  out :: nat
  buf :: string
  size_l :: "64 word"
  path :: string
  maxsize :: "64 word"

definition New :: "nat \<Rightarrow> string \<Rightarrow> int \<Rightarrow> Logger" where
  "New out' prefix' flag' =
     \<lparr>prefix = prefix', flag = flag', out = out', buf = [], size_l = 0, path = [], maxsize = 0\<rparr>"

definition NewRollFileLogger ::
  "string \<Rightarrow> 64 word \<Rightarrow> int \<Rightarrow> state \<Rightarrow> state \<times> (error + Logger)" where
  "NewRollFileLogger path' maxsize' flag' st =
     (case OpenFile path' {O_APPEND, O_WRONLY} st of
        (st1, Inl err) \<Rightarrow> (st1, Inl err)
      | (st1, Inr out') \<Rightarrow>
          (st1\<lparr>currentOutFile := Some out'\<rparr>,
           Inr \<lparr>prefix = [], flag = flag', out = out', buf = [], size_l = 0, path = path',
                maxsize = (if maxsize' < 1024 * 1024 then 1024 * 1024 * 10 else maxsize')\<rparr>))"

definition NewFileLogger :: "string \<Rightarrow> int \<Rightarrow> state \<Rightarrow> state \<times> (error + Logger)" where
  "NewFileLogger path' flag' st = NewRollFileLogger path' (1024 * 1024 * 10) flag' st"

subsection \<open>itoa\<close>

text \<open>\<open>byte(u%10) + '0'\<close>\<close>

definition digit_byte :: "nat \<Rightarrow> char" where
  "digit_byte u = char_of (u mod 10 + 48)"

text \<open>A value of type \<open>int\<close> after an operation that may overflow: it wraps to 64 bits.\<close>

definition int64_wrap :: "int \<Rightarrow> int" where
  "int64_wrap x = (x + 2 ^ 63) mod 2 ^ 64 - 2 ^ 63"

text \<open>
  The loop of \<open>itoa\<close> over the array \<open>b\<close> of 32 bytes, with \<open>bp\<close> the index of the
  last byte written. Decrementing \<open>bp\<close> below 0 makes \<open>b[bp]\<close> an index out of range:
  the run-time panic is \<open>None\<close>.
\<close>

fun itoa_loop :: "string \<Rightarrow> nat \<Rightarrow> nat \<Rightarrow> int \<Rightarrow> (string \<times> nat) option" where
  "itoa_loop b bp u wid =
     (if u > 0 \<or> wid > 0 then
        (case bp of
           0 \<Rightarrow> None
         | Suc bp' \<Rightarrow> itoa_loop (b[bp' := digit_byte u]) bp' (u div 10) (int64_wrap (wid - 1)))
      else Some (b, bp))"

declare itoa_loop.simps [simp del]

definition itoa :: "string \<Rightarrow> int \<Rightarrow> int \<Rightarrow> string option" where
  "itoa buf' i wid =
     (let u = nat (i mod 2 ^ 64) in
      if u = 0 \<and> wid \<le> 1 then Some (buf' @ ''0'')
      else
        (case itoa_loop (replicate 32 (CHR 0x00)) 32 u wid of
           None \<Rightarrow> None
         | Some (b, bp) \<Rightarrow> Some (buf' @ drop bp b)))"

subsection \<open>formatHeader\<close>

text \<open>
  The loop that shortens the file name, \<open>for i := len(file) - 1; i > 0; i--\<close>: the
  second argument is \<open>i\<close>; the result is the final value of \<open>short\<close>.
\<close>

fun short_loop :: "string \<Rightarrow> nat \<Rightarrow> string" where
  "short_loop file 0 = file"
| "short_loop file (Suc i) =
     (if file ! Suc i = CHR ''/'' then drop (Suc i + 1) file else short_loop file i)"

text \<open>The three blocks of \<open>formatHeader\<close>: the date, the clock, and the file and line.\<close>

definition header_date :: "string \<Rightarrow> gotime \<Rightarrow> string option" where
  "header_date b t =
     (case itoa b (Year t) 4 of None \<Rightarrow> None | Some b1 \<Rightarrow>
     (case itoa (b1 @ ''/'') (Month t) 2 of None \<Rightarrow> None | Some b2 \<Rightarrow>
     (case itoa (b2 @ ''/'') (Day t) 2 of None \<Rightarrow> None | Some b3 \<Rightarrow>
      Some (b3 @ '' ''))))"

definition header_clock :: "int \<Rightarrow> string \<Rightarrow> gotime \<Rightarrow> string option" where
  "header_clock fl b t =
     (case itoa b (Hour t) 2 of None \<Rightarrow> None | Some b1 \<Rightarrow>
     (case itoa (b1 @ '':'') (Minute t) 2 of None \<Rightarrow> None | Some b2 \<Rightarrow>
     (case itoa (b2 @ '':'') (Second t) 2 of None \<Rightarrow> None | Some b3 \<Rightarrow>
     (case (if fl AND Lmicroseconds \<noteq> 0 then itoa (b3 @ ''.'') (quo (Nanosecond t) 1000) 6
            else Some b3) of None \<Rightarrow> None | Some b4 \<Rightarrow>
      Some (b4 @ '' '')))))"

definition header_file :: "int \<Rightarrow> string \<Rightarrow> string \<Rightarrow> int \<Rightarrow> string option" where
  "header_file fl b file line =
     (let file' = (if fl AND Lshortfile \<noteq> 0 then short_loop file (length file - 1) else file) in
      (case itoa (b @ file' @ '':'') line (- 1) of None \<Rightarrow> None | Some b1 \<Rightarrow>
       Some (b1 @ '': '')))"

definition formatHeader :: "Logger \<Rightarrow> string \<Rightarrow> gotime \<Rightarrow> string \<Rightarrow> int \<Rightarrow> string option" where
  "formatHeader l b t file line =
     (case
        (if flag l AND (Ldate OR Ltime OR Lmicroseconds) \<noteq> 0 then
           (case (if flag l AND Ldate \<noteq> 0 then header_date (b @ prefix l) t
                  else Some (b @ prefix l)) of
              None \<Rightarrow> None
            | Some b1 \<Rightarrow>
                if flag l AND (Ltime OR Lmicroseconds) \<noteq> 0 then header_clock (flag l) b1 t
                else Some b1)
         else Some (b @ prefix l)) of
        None \<Rightarrow> None
      | Some b2 \<Rightarrow>
          if flag l AND (Lshortfile OR Llongfile) \<noteq> 0 then header_file (flag l) b2 file line
          else Some b2)"

subsection \<open>rollFile and output\<close>

definition close_failed :: "error \<Rightarrow> string" where
  "close_failed err =
     ''[XXX] ARALOGGER ERROR: Close current output file failed, '' @ Error err @ [CHR 0x0A]"

definition rolling_failed :: "error \<Rightarrow> string" where
  "rolling_failed err =
     ''[XXX] ARALOGGER ERROR: Rolling file failed, '' @ Error err @ [CHR 0x0A]"

text \<open>The second argument of \<open>os.Rename\<close> in \<open>rollFile\<close>.\<close>

definition rolled_name :: "string \<Rightarrow> gotime \<Rightarrow> string" where
  "rolled_name p now =
     p @ go_string (Year now) @ go_string (Month now) @ go_string (Day now) @
     go_string (Hour now) @ go_string (Minute now) @ go_string (Second now)"

text \<open>
  \<open>rollFile\<close>, in the order of the source: count, compare, close \<open>currentOutFile\<close>,
  rename, open \<open>newPath\<close>, and on success store the new handle. The result is the new
  state, the Logger as the call leaves it, and the returned error (\<open>None\<close> is \<open>nil\<close>).
  The two \<open>append\<close> calls that record a failure are given the message as a string and
  then the newline: they are read as appending the bytes of the message and the newline
  (\<open>close_failed\<close>, \<open>rolling_failed\<close>).
\<close>

definition rollFile :: "Logger \<Rightarrow> gotime \<Rightarrow> state \<Rightarrow> state \<times> Logger \<times> error option" where
  "rollFile l now st =
     (let l1 = l\<lparr>size_l := size_l l + of_nat (length (buf l))\<rparr> in
      if size_l l1 > maxsize l1 then
        (let (st1, l2) =
               (case currentOutFile st of
                  None \<Rightarrow> (st, l1)
                | Some f \<Rightarrow>
                    (case Close f st of
                       (st', None) \<Rightarrow> (st', l1)
                     | (st', Some err) \<Rightarrow> (st', l1\<lparr>buf := buf l1 @ close_failed err\<rparr>)));
             (st2, rerr) = Rename (path l2) (rolled_name (path l2) now) st1;
             (l3, newPath) =
               (case rerr of
                  None \<Rightarrow> (l2, path l2)
                | Some err \<Rightarrow>
                    (l2\<lparr>buf := buf l2 @ rolling_failed err\<rparr>, path l2 @ go_string (Unix now)))
         in case OpenFile newPath {O_APPEND, O_WRONLY} st2 of
              (st3, Inl err) \<Rightarrow> (st3, l3, Some err)
            | (st3, Inr newOut) \<Rightarrow>
                (st3\<lparr>currentOutFile := Some newOut\<rparr>,
                 l3\<lparr>out := newOut, size_l := of_nat (length (buf l3))\<rparr>, None))
      else (st, l1, None))"

text \<open>
  The buffer that \<open>output\<close> builds before it looks at the path: the header, the message,
  and the newline of the source's test \<open>len(s) > 0 && s[len(s)-1] != '\n'\<close>.
\<close>

definition build_line :: "Logger \<Rightarrow> gotime \<Rightarrow> string \<Rightarrow> int \<Rightarrow> string \<Rightarrow> string option" where
  "build_line l now file line s =
     (case formatHeader l [] now file line of
        None \<Rightarrow> None
      | Some b \<Rightarrow>
          Some (if length s > 0 \<and> last s \<noteq> CHR 0x0A then b @ s @ [CHR 0x0A] else b @ s))"

text \<open>
  \<open>output\<close> (named \<open>Output\<close> here). \<open>Caller\<close> stands for \<open>runtime.Caller\<close> on the stack of the call
  (\<open>None\<close> when \<open>ok\<close> is false) and \<open>now\<close> for the value of \<open>time.Now()\<close>. The
  outer \<open>None\<close> is a panic; otherwise the result is the new state, the Logger, and the
  returned error.
\<close>

definition Output ::
  "(int \<Rightarrow> (string \<times> int) option) \<Rightarrow> gotime \<Rightarrow> Logger \<Rightarrow> int \<Rightarrow> string \<Rightarrow> state \<Rightarrow>
   (state \<times> Logger \<times> error option) option" where
  "Output Caller now l calldepth s st =
     (let (file, line) =
            (if flag l AND (Lshortfile OR Llongfile) \<noteq> 0 then
               (case Caller calldepth of None \<Rightarrow> (''???'', 0) | Some fl \<Rightarrow> fl)
             else ([], 0))
      in case build_line l now file line s of
           None \<Rightarrow> None
         | Some b \<Rightarrow>
             (let l1 = l\<lparr>buf := b\<rparr> in
              if length (path l1) > 0 then
                (case rollFile l1 now st of
                   (st1, l2, Some err) \<Rightarrow> Some (st1, l2, Some err)
                 | (st1, l2, None) \<Rightarrow>
                     (case Write (out l2) (buf l2) st1 of (st2, werr) \<Rightarrow> Some (st2, l2, werr)))
              else
                (case Write (out l1) (buf l1) st of (st2, werr) \<Rightarrow> Some (st2, l1, werr))))"

definition Debug ::
  "(int \<Rightarrow> (string \<times> int) option) \<Rightarrow> gotime \<Rightarrow> Logger \<Rightarrow> string \<Rightarrow> state \<Rightarrow>
   (state \<times> Logger \<times> error option) option" where
  "Debug Caller now l s st = Output Caller now l 2 s st"


section \<open>Specification-side definitions\<close>

subsection \<open>Decimal digits\<close>

text \<open>The natural decimal digits of a number, most significant first; \<open>0\<close> is \<open>''0''\<close>.\<close>

fun dec :: "nat \<Rightarrow> string" where
  "dec n = (if n < 10 then [digit_byte n] else dec (n div 10) @ [digit_byte n])"

declare dec.simps [simp del]

definition digitCount :: "nat \<Rightarrow> nat" where
  "digitCount n = length (dec n)"

text \<open>Left-padding with zeros to a width; a string already that wide is unchanged.\<close>

definition zero_pad :: "nat \<Rightarrow> string \<Rightarrow> string" where
  "zero_pad w s = replicate (w - length s) (CHR ''0'') @ s"

text \<open>
  What the loop of \<open>itoa\<close> has written when it stops: no digit for \<open>0\<close>, and zeros
  up to the width.
\<close>

definition digs :: "nat \<Rightarrow> string" where
  "digs u = (if u = 0 then [] else dec u)"

definition loop_digits :: "nat \<Rightarrow> nat \<Rightarrow> string" where
  "loop_digits u w = replicate (w - length (digs u)) (CHR ''0'') @ digs u"

subsection \<open>The line template\<close>

text \<open>
  The template \<open><prefix><date ><time[.micros] ><file:line: ><message>\<close> of the
  specification, field by field. A flag is enabled when its bit is set; the date is
  \<open>YYYY/MM/DD\<close>, the time \<open>HH:MM:SS\<close> with \<open>.NNNNNN\<close> under \<open>Lmicroseconds\<close>; the
  file name is the one \<open>formatHeader\<close> prints (shortened by its own loop under
  \<open>Lshortfile\<close>), the line number is unpadded decimal. The newline after the message
  is added when the message is not empty and does not end in one.
\<close>

definition has :: "int \<Rightarrow> int \<Rightarrow> bool" where
  "has fl b \<longleftrightarrow> fl AND b \<noteq> 0"

definition spec_date :: "gotime \<Rightarrow> string" where
  "spec_date t =
     zero_pad 4 (dec (nat (Year t))) @ ''/'' @ zero_pad 2 (dec (nat (Month t))) @ ''/'' @
     zero_pad 2 (dec (nat (Day t))) @ '' ''"

definition spec_time :: "int \<Rightarrow> gotime \<Rightarrow> string" where
  "spec_time fl t =
     zero_pad 2 (dec (nat (Hour t))) @ '':'' @ zero_pad 2 (dec (nat (Minute t))) @ '':'' @
     zero_pad 2 (dec (nat (Second t))) @
     (if has fl Lmicroseconds then ''.'' @ zero_pad 6 (dec (nat (Nanosecond t div 1000))) else []) @
     '' ''"

definition spec_file :: "int \<Rightarrow> string \<Rightarrow> int \<Rightarrow> string" where
  "spec_file fl file line =
     (if has fl Lshortfile then short_loop file (length file - 1) else file) @ '':'' @
     dec (nat line) @ '': ''"

definition spec_header :: "int \<Rightarrow> string \<Rightarrow> gotime \<Rightarrow> string \<Rightarrow> int \<Rightarrow> string" where
  "spec_header fl pre t file line =
     pre @
     (if has fl Ldate then spec_date t else []) @
     (if has fl Ltime \<or> has fl Lmicroseconds then spec_time fl t else []) @
     (if has fl Lshortfile \<or> has fl Llongfile then spec_file fl file line else [])"

definition spec_line :: "int \<Rightarrow> string \<Rightarrow> gotime \<Rightarrow> string \<Rightarrow> int \<Rightarrow> string \<Rightarrow> string" where
  "spec_line fl pre t file line s =
     spec_header fl pre t file line @ s @ (if s \<noteq> [] \<and> last s \<noteq> CHR 0x0A then [CHR 0x0A] else [])"

subsection \<open>Example values\<close>

text \<open>2 January 2024, 12:03:04.005006 UTC, and a process with one open log file.\<close>

definition t_noon :: gotime where
  "t_noon = \<lparr>Year = 2024, Month = 1, Day = 2, Hour = 12, Minute = 3, Second = 4,
             Nanosecond = 5006000, Unix = 1704196984\<rparr>"

definition st_one :: state where
  "st_one = \<lparr>files = [''ara.log'' \<mapsto> 0], contents = (\<lambda>_. []), inodes = 1,
             handles = [\<lparr>f_name = ''ara.log'', f_inode = 0, f_flags = {O_APPEND, O_WRONLY},
                         f_closed = False\<rparr>],
             currentOutFile = None\<rparr>"

text \<open>
  A Logger on \<open>ara.log\<close> whose counter has reached its threshold of 1 MiB, with the
  line \<open>x\<close> pending; a process whose \<open>ara.log\<close> is open and in place; and one
  whose open log file is no longer at its path, while a file exists under the fallback
  name of \<open>rollFile\<close> for \<open>t_noon\<close>.
\<close>

definition l_full :: Logger where
  "l_full = \<lparr>prefix = [], flag = 0, out = 0, buf = ''x'' @ [CHR 0x0A], size_l = 1048576,
             path = ''ara.log'', maxsize = 1048576\<rparr>"

definition st_log :: state where
  "st_log = \<lparr>files = [''ara.log'' \<mapsto> 0], contents = (\<lambda>_. []), inodes = 1,
             handles = [\<lparr>f_name = ''ara.log'', f_inode = 0, f_flags = {O_APPEND, O_WRONLY},
                         f_closed = False\<rparr>],
             currentOutFile = Some 0\<rparr>"

definition st_moved :: state where
  "st_moved = \<lparr>files = [''ara.log'' @ [CHR 0xEF, CHR 0xBF, CHR 0xBD] \<mapsto> 1],
               contents = (\<lambda>_. []), inodes = 2,
               handles = [\<lparr>f_name = ''ara.log'', f_inode = 0, f_flags = {O_APPEND, O_WRONLY},
                           f_closed = False\<rparr>],
               currentOutFile = Some 0\<rparr>"

text \<open>
  The process before \<open>ara.log\<close> is opened, and a message of 1048575 bytes, which with
  its newline fills the counter of a fresh Logger up to the threshold of 1 MiB.
\<close>

definition st_new :: state where
  "st_new = \<lparr>files = [''ara.log'' \<mapsto> 0], contents = (\<lambda>_. []), inodes = 1, handles = [],
             currentOutFile = None\<rparr>"

definition fill_msg :: string where
  "fill_msg = replicate 1048575 (CHR ''x'')"

text \<open>
  Two Loggers in one process: a directory with \<open>a.log\<close> and \<open>b.log\<close>, the states
  after \<open>NewRollFileLogger\<close> on \<open>a.log\<close> and then on \<open>b.log\<close> (both with the
  threshold of 1 MiB and no flags), the two Loggers returned, a message of 1048577 bytes,
  and the state after the first Logger has been given that message.
\<close>

definition st_ab :: state where
  "st_ab = \<lparr>files = [''a.log'' \<mapsto> 0, ''b.log'' \<mapsto> 1], contents = (\<lambda>_. []), inodes = 2,
            handles = [], currentOutFile = None\<rparr>"

definition st_a :: state where
  "st_a = st_ab\<lparr>handles :=
            [\<lparr>f_name = ''a.log'', f_inode = 0, f_flags = {O_APPEND, O_WRONLY}, f_closed = False\<rparr>],
          currentOutFile := Some 0\<rparr>"

definition st_ab2 :: state where
  "st_ab2 = st_ab\<lparr>handles :=
            [\<lparr>f_name = ''a.log'', f_inode = 0, f_flags = {O_APPEND, O_WRONLY}, f_closed = False\<rparr>,
             \<lparr>f_name = ''b.log'', f_inode = 1, f_flags = {O_APPEND, O_WRONLY}, f_closed = False\<rparr>],
          currentOutFile := Some 1\<rparr>"

definition st_ab3 :: state where
  "st_ab3 = st_ab\<lparr>files := (files st_ab)(''a.log'' := None, rolled_name ''a.log'' t_noon \<mapsto> 0),
          handles :=
            [\<lparr>f_name = ''a.log'', f_inode = 0, f_flags = {O_APPEND, O_WRONLY}, f_closed = False\<rparr>,
             \<lparr>f_name = ''b.log'', f_inode = 1, f_flags = {O_APPEND, O_WRONLY}, f_closed = True\<rparr>],
          currentOutFile := Some 1\<rparr>"

definition logger_a :: Logger where
  "logger_a = \<lparr>prefix = [], flag = 0, out = 0, buf = [], size_l = 0, path = ''a.log'',
               maxsize = 1048576\<rparr>"

definition logger_b :: Logger where
  "logger_b = \<lparr>prefix = [], flag = 0, out = 1, buf = [], size_l = 0, path = ''b.log'',
               maxsize = 1048576\<rparr>"

definition big_msg :: string where
  "big_msg = replicate 1048577 (CHR ''x'')"

subsection \<open>The path rollFile opens\<close>

text \<open>
  The original path when a file is there to be renamed, and otherwise (the rename
  fails) the path followed by \<open>string(now.Unix())\<close>.
\<close>

definition open_target :: "Logger \<Rightarrow> gotime \<Rightarrow> state \<Rightarrow> string" where
  "open_target l now st =
     (if files st (path l) = None then path l @ go_string (Unix now) else path l)"

section \<open>Properties\<close>

subsection \<open>itoa\<close>

lemma digit_byte_0: "digit_byte 0 = CHR ''0''"
  by code_simp

lemma digs_step: "u > 0 \<Longrightarrow> digs u = digs (u div 10) @ [digit_byte u]"
  by (subst digs_def, subst dec.simps) (auto simp: digs_def)

lemma loop_digits_step:
  "u > 0 \<or> w > 0 \<Longrightarrow> loop_digits u w = loop_digits (u div 10) (w - 1) @ [digit_byte u]"
proof (cases "u > 0")
  case True
  then show ?thesis
    by (simp add: loop_digits_def digs_step [OF True])
next
  case False
  assume "u > 0 \<or> w > 0"
  with False have "u = 0" "w > 0" by auto
  then show ?thesis
    by (cases w) (simp_all add: loop_digits_def digs_def digit_byte_0 replicate_append_same)
qed

lemma loop_digits_stop: "\<not> (u > 0 \<or> w > 0) \<Longrightarrow> loop_digits u w = []"
  by (simp add: loop_digits_def digs_def)

lemma int64_wrap_id: "- (2 ^ 63) \<le> x \<Longrightarrow> x < 2 ^ 63 \<Longrightarrow> int64_wrap x = x"
  by (simp add: int64_wrap_def)

lemma drop_upd_here: "i < length b \<Longrightarrow> drop i (b[i := d]) = d # drop (Suc i) b"
  by (metis Cons_nth_drop_Suc drop_update_cancel length_list_update lessI nth_list_update_eq)

lemma itoa_loop_run:
  "length b = N \<Longrightarrow> bp \<le> N \<Longrightarrow> length (loop_digits u (nat wid)) \<le> bp \<Longrightarrow>
   - (2 ^ 63) + int bp \<le> wid \<Longrightarrow> wid < 2 ^ 63 \<Longrightarrow>
   \<exists>b'. itoa_loop b bp u wid = Some (b', bp - length (loop_digits u (nat wid))) \<and> length b' = N \<and>
        drop (bp - length (loop_digits u (nat wid))) b' = loop_digits u (nat wid) @ drop bp b"
proof (induction bp arbitrary: b u wid)
  case 0
  have "\<not> (u > 0 \<or> nat wid > 0)"
  proof
    assume "u > 0 \<or> nat wid > 0"
    from loop_digits_step [OF this] 0(3) show False by simp
  qed
  then show ?case using "0.prems"
    by (simp add: itoa_loop.simps loop_digits_stop)
next
  case (Suc bp)
  show ?case
  proof (cases "u > 0 \<or> wid > 0")
    case False
    then show ?thesis using Suc.prems
      by (simp add: itoa_loop.simps loop_digits_stop)
  next
    case True
    have w: "int64_wrap (wid - 1) = wid - 1"
      using Suc.prems by (intro int64_wrap_id) auto
    have ds: "loop_digits u (nat wid) = loop_digits (u div 10) (nat (wid - 1)) @ [digit_byte u]"
    proof -
      have "nat (wid - 1) = nat wid - 1" by arith
      moreover have "u > 0 \<or> nat wid > 0" using True by auto
      ultimately show ?thesis using loop_digits_step [of u "nat wid"] by simp
    qed
    let ?ds = "loop_digits (u div 10) (nat (wid - 1))"
    have len: "length ?ds \<le> bp" using Suc.prems(3) ds by simp
    have "\<exists>b'. itoa_loop (b[bp := digit_byte u]) bp (u div 10) (wid - 1) =
            Some (b', bp - length ?ds) \<and> length b' = N \<and>
            drop (bp - length ?ds) b' = ?ds @ drop bp (b[bp := digit_byte u])"
      using Suc.prems len by (intro Suc.IH) auto
    then obtain b' where b': "itoa_loop (b[bp := digit_byte u]) bp (u div 10) (wid - 1) =
            Some (b', bp - length ?ds)" "length b' = N"
            "drop (bp - length ?ds) b' = ?ds @ drop bp (b[bp := digit_byte u])" by blast
    have "drop bp (b[bp := digit_byte u]) = digit_byte u # drop (Suc bp) b"
      using Suc.prems by (intro drop_upd_here) auto
    with b' True w ds show ?thesis
      by (subst itoa_loop.simps) simp
  qed
qed

lemma dec_0: "dec 0 = ''0''"
  by code_simp

lemma length_digs_le: "n < 10 ^ k \<Longrightarrow> length (digs n) \<le> k"
proof (induction k arbitrary: n)
  case 0
  then show ?case by (simp add: digs_def)
next
  case (Suc k)
  show ?case
  proof (cases "n = 0")
    case True
    then show ?thesis by (simp add: digs_def)
  next
    case False
    then have "n div 10 < 10 ^ k" using Suc.prems by (simp add: less_mult_imp_div_less mult.commute)
    from Suc.IH [OF this] False show ?thesis by (simp add: digs_step)
  qed
qed

lemma length_digs_uint: "n < 2 ^ 64 \<Longrightarrow> length (digs n) \<le> 20"
  by (rule length_digs_le) simp

lemma loop_digits_pad:
  "\<not> (u = 0 \<and> w \<le> 1) \<Longrightarrow> loop_digits u w = zero_pad w (dec u)"
proof (cases "u = 0")
  case False
  then show ?thesis by (simp add: loop_digits_def zero_pad_def digs_def)
next
  case True
  assume "\<not> (u = 0 \<and> w \<le> 1)"
  with True obtain w' where "w = Suc w'" by (cases w) auto
  with True show ?thesis
    by (simp add: loop_digits_def zero_pad_def digs_def dec_0 replicate_append_same)
qed

lemma itoa_total:
  assumes "- (2 ^ 63) + 32 \<le> wid" and "wid \<le> 32"
  shows "itoa b i wid = Some (b @ zero_pad (nat wid) (dec (nat (i mod 2 ^ 64))))"
proof -
  define u where "u = nat (i mod 2 ^ 64)"
  have u: "u < 2 ^ 64"
    by (simp add: u_def nat_less_iff)
  have unfold: "itoa b i wid =
      (if u = 0 \<and> wid \<le> 1 then Some (b @ ''0'')
       else (case itoa_loop (replicate 32 (CHR 0x00)) 32 u wid of
               None \<Rightarrow> None | Some (b', bp) \<Rightarrow> Some (b @ drop bp b')))"
    by (simp add: itoa_def u_def Let_def)
  show ?thesis
  proof (cases "u = 0 \<and> wid \<le> 1")
    case True
    then have "nat wid - 1 = 0" by arith
    with True show ?thesis
      unfolding unfold u_def [symmetric] by (simp add: zero_pad_def dec_0)
  next
    case False
    then have nz: "\<not> (u = 0 \<and> nat wid \<le> 1)" by auto
    have "length (loop_digits u (nat wid)) \<le> 32"
      using length_digs_uint [OF u] assms by (simp add: loop_digits_def)
    with assms have "\<exists>b'. itoa_loop (replicate 32 (CHR 0x00)) 32 u wid =
        Some (b', 32 - length (loop_digits u (nat wid))) \<and> length b' = 32 \<and>
        drop (32 - length (loop_digits u (nat wid))) b' =
          loop_digits u (nat wid) @ drop 32 (replicate 32 (CHR 0x00))"
      by (intro itoa_loop_run) auto
    then obtain b' where "itoa_loop (replicate 32 (CHR 0x00)) 32 u wid =
        Some (b', 32 - length (loop_digits u (nat wid)))"
        "drop (32 - length (loop_digits u (nat wid))) b' = loop_digits u (nat wid)"
      by auto
    with False loop_digits_pad [OF nz] show ?thesis
      unfolding unfold u_def [symmetric] by auto
  qed
qed

text \<open>
  C8 (as amended). For every non-negative \<open>int\<close> \<open>n\<close> and every width \<open>w\<close> from
  \<open>-2^63 + 32\<close> to \<open>32\<close>, \<open>itoa\<close> returns and appends the decimal digits of \<open>n\<close>
  left-padded with zeros to \<open>w\<close>: exactly \<open>max w (digitCount n)\<close> bytes when
  \<open>w \<ge> 1\<close>, and exactly the natural digits, with no padding, when \<open>w \<le> 0\<close>.
\<close>

theorem itoa_width:
  assumes "0 \<le> n" and "n < 2 ^ 63" and "- (2 ^ 63) + 32 \<le> w" and "w \<le> 32"
  shows "itoa b n w = Some (b @ replicate (nat w - digitCount (nat n)) (CHR ''0'') @ dec (nat n)) \<and>
         (1 \<le> w \<longrightarrow>
            length (replicate (nat w - digitCount (nat n)) (CHR ''0'') @ dec (nat n)) =
              max (nat w) (digitCount (nat n))) \<and>
         (w \<le> 0 \<longrightarrow> itoa b n w = Some (b @ dec (nat n)))"
proof -
  have "n mod 2 ^ 64 = n" using assms(1,2) by simp
  with itoa_total [OF assms(3,4), of b n]
  have r: "itoa b n w = Some (b @ zero_pad (nat w) (dec (nat n)))" by simp
  then show ?thesis
    by (auto simp: zero_pad_def digitCount_def)
qed

theorem itoa_width_witness:
  "itoa ''t='' 7 2 = Some ''t=07'' \<and> itoa ''line '' 123 (- 1) = Some ''line 123''"
proof -
  have d: "dec 7 = ''7''" "dec 123 = ''123''" by code_simp+
  have "itoa ''t='' 7 2 = Some (''t='' @ replicate (nat 2 - digitCount (nat 7)) (CHR ''0'') @ dec (nat 7))"
    using itoa_width [of 7 2 "''t=''"] by simp
  moreover have "itoa ''line '' 123 (- 1) = Some (''line '' @ dec (nat 123))"
    using itoa_width [of 123 "- 1" "''line ''"] by simp
  ultimately show ?thesis
    using d by (simp add: digitCount_def)
qed

text \<open>
  C8 as stated fails outside these widths: the array of \<open>itoa\<close> holds 32 bytes, so
  width 33 indexes it out of range, and at the least \<open>int\<close> the decrement of the width
  wraps to a positive value, with the same end.
\<close>

theorem itoa_width_counterexample:
  "itoa [] 0 33 = None \<and> itoa [] 5 (- (2 ^ 63)) = None"
  by code_simp

subsection \<open>formatHeader and the line of output\<close>

lemma and_or_nonzero: "(fl :: int) AND (a OR b) \<noteq> 0 \<longleftrightarrow> fl AND a \<noteq> 0 \<or> fl AND b \<noteq> 0"
  by (auto simp: bit.conj_disj_distrib or_eq_0_iff)

lemma itoa_nonneg:
  "0 \<le> i \<Longrightarrow> i < 2 ^ 63 \<Longrightarrow> - (2 ^ 63) + 32 \<le> w \<Longrightarrow> w \<le> 32 \<Longrightarrow>
   itoa b i w = Some (b @ zero_pad (nat w) (dec (nat i)))"
  using itoa_total [of w b i] by simp

lemma header_date_ok: "valid_time t \<Longrightarrow> header_date b t = Some (b @ spec_date t)"
  by (simp add: header_date_def valid_time_def itoa_nonneg spec_date_def)

lemma quo_nonneg: "0 \<le> a \<Longrightarrow> 0 < b \<Longrightarrow> quo a b = a div b"
  by (simp add: quo_def)

lemma header_clock_ok: "valid_time t \<Longrightarrow> header_clock fl b t = Some (b @ spec_time fl t)"
proof -
  assume v: "valid_time t"
  then have "Nanosecond t div 1000 \<le> 999999999 div 1000"
    by (intro zdiv_mono1) (auto simp: valid_time_def)
  with v have n: "0 \<le> Nanosecond t div 1000" "Nanosecond t div 1000 < 2 ^ 63"
    by (auto simp: valid_time_def pos_imp_zdiv_nonneg_iff)
  from v n show ?thesis
    by (simp add: header_clock_def valid_time_def itoa_nonneg spec_time_def quo_nonneg has_def)
qed

lemma header_file_ok:
  "0 \<le> line \<Longrightarrow> line < 2 ^ 63 \<Longrightarrow> header_file fl b file line = Some (b @ spec_file fl file line)"
  by (simp add: header_file_def itoa_nonneg spec_file_def has_def zero_pad_def Let_def)

lemma formatHeader_ok:
  "valid_time t \<Longrightarrow> 0 \<le> line \<Longrightarrow> line < 2 ^ 63 \<Longrightarrow>
   formatHeader l b t file line = Some (b @ spec_header (flag l) (prefix l) t file line)"
  by (simp add: formatHeader_def and_or_nonzero header_date_ok header_clock_ok header_file_ok
      spec_header_def has_def)

lemma itoa_Some: "- (2 ^ 63) + 32 \<le> w \<Longrightarrow> w \<le> 32 \<Longrightarrow> \<exists>r. itoa b i w = Some r"
  by (simp add: itoa_total)

lemma header_date_total: "\<exists>r. header_date b t = Some r"
  by (simp add: header_date_def itoa_total)

lemma header_clock_total: "\<exists>r. header_clock fl b t = Some r"
  by (simp add: header_clock_def itoa_total)

lemma header_file_total: "\<exists>r. header_file fl b file line = Some r"
  by (simp add: header_file_def itoa_total Let_def)

lemma formatHeader_total: "\<exists>r. formatHeader l b t file line = Some r"
proof -
  obtain d where d: "header_date (b @ prefix l) t = Some d"
    using header_date_total by blast
  obtain c1 where c1: "header_clock (flag l) d t = Some c1"
    using header_clock_total by blast
  obtain c2 where c2: "header_clock (flag l) (b @ prefix l) t = Some c2"
    using header_clock_total by blast
  obtain f1 f2 f3 f4 f5 where f:
    "header_file (flag l) d file line = Some f1"
    "header_file (flag l) c1 file line = Some f2"
    "header_file (flag l) c2 file line = Some f3"
    "header_file (flag l) (b @ prefix l) file line = Some f4"
    using header_file_total by meson
  show ?thesis
    by (simp add: formatHeader_def d c1 c2 f)
qed

lemma build_line_total: "\<exists>r. build_line l t file line s = Some r"
  using formatHeader_total [of l "[]" t "file" line] by (auto simp: build_line_def)

lemma Output_no_panic: "Output Caller now l d s st \<noteq> None"
proof -
  obtain fname lnum where fl: "(if flag l AND (Lshortfile OR Llongfile) \<noteq> 0 then
               (case Caller d of None \<Rightarrow> (''???'', 0) | Some fl \<Rightarrow> fl)
             else ([], 0)) = (fname, lnum)"
    by (metis surj_pair)
  obtain r where "build_line l now fname lnum s = Some r"
    using build_line_total by blast
  with fl show ?thesis
    by (simp add: Output_def Let_def split: prod.splits option.splits)
qed

lemma spec_header_no_file:
  "\<not> has fl Lshortfile \<Longrightarrow> \<not> has fl Llongfile \<Longrightarrow>
   spec_header fl pre t file line = spec_header fl pre t [] 0"
  by (simp add: spec_header_def)

lemma build_line_ok:
  "valid_time t \<Longrightarrow> 0 \<le> line \<Longrightarrow> line < 2 ^ 63 \<Longrightarrow>
   build_line l t file line s = Some (spec_line (flag l) (prefix l) t file line s)"
  by (simp add: build_line_def formatHeader_ok spec_line_def)

lemma Write_open:
  "f < length (handles st) \<Longrightarrow> \<not> f_closed (handles st ! f) \<Longrightarrow>
   Write f b st =
     (st\<lparr>contents := (contents st)
           (f_inode (handles st ! f) := contents st (f_inode (handles st ! f)) @ b)\<rparr>, None)"
  by (simp add: Write_def)

text \<open>
  C4 (as amended). For every flag set, prefix, wall-clock time, caller file and line and
  message, the line one call of \<open>output\<close> builds is exactly
  \<open><prefix><date ><time[.micros] ><file:line: ><message>\<close>, each field present iff its flag
  is enabled and in that order, followed by one newline iff the message is not empty and
  does not already end in a newline (an empty message gives the header alone, with no
  newline). For a Logger without a path and with an open sink, these are exactly the
  bytes the call appends to the sink, and no error is returned.
\<close>

theorem emit_line_format:
  assumes "valid_time now" and "0 \<le> lnum" and "lnum < 2 ^ 63"
  shows "build_line l now fname lnum s = Some (spec_line (flag l) (prefix l) now fname lnum s) \<and>
         (Caller d = Some (fname, lnum) \<longrightarrow> path l = [] \<longrightarrow>
          out l < length (handles st) \<longrightarrow> \<not> f_closed (handles st ! out l) \<longrightarrow>
          Output Caller now l d s st =
            Some (st\<lparr>contents := (contents st)
                    (f_inode (handles st ! out l) :=
                       contents st (f_inode (handles st ! out l)) @
                       spec_line (flag l) (prefix l) now fname lnum s)\<rparr>,
                  l\<lparr>buf := spec_line (flag l) (prefix l) now fname lnum s\<rparr>, None))"
proof (intro conjI impI)
  show b: "build_line l now fname lnum s = Some (spec_line (flag l) (prefix l) now fname lnum s)"
    using assms by (rule build_line_ok)
  assume c: "Caller d = Some (fname, lnum)" and p: "path l = []"
    and o: "out l < length (handles st)" "\<not> f_closed (handles st ! out l)"
  show "Output Caller now l d s st =
            Some (st\<lparr>contents := (contents st)
                    (f_inode (handles st ! out l) :=
                       contents st (f_inode (handles st ! out l)) @
                       spec_line (flag l) (prefix l) now fname lnum s)\<rparr>,
                  l\<lparr>buf := spec_line (flag l) (prefix l) now fname lnum s\<rparr>, None)"
  proof (cases "flag l AND (Lshortfile OR Llongfile) \<noteq> 0")
    case True
    with b c p o show ?thesis
      by (simp add: Output_def Write_open)
  next
    case False
    then have nf: "\<not> has (flag l) Lshortfile" "\<not> has (flag l) Llongfile"
      by (auto simp: and_or_nonzero has_def)
    have "build_line l now [] 0 s = Some (spec_line (flag l) (prefix l) now [] 0 s)"
      using assms(1) by (intro build_line_ok) auto
    moreover have "spec_line (flag l) (prefix l) now [] 0 s = spec_line (flag l) (prefix l) now fname lnum s"
      using spec_header_no_file [OF nf, of "prefix l" now fname lnum] by (simp add: spec_line_def)
    ultimately show ?thesis using False p o
      by (simp add: Output_def Write_open)
  qed
qed

theorem emit_line_format_witness:
  "valid_time t_noon \<and>
   build_line (New 0 [] Ltime) t_noon ''/a/b/c/d.go'' 23 ''hello'' =
     Some (''12:03:04 hello'' @ [CHR 0x0A]) \<and>
   Output (\<lambda>_. Some (''/a/b/c/d.go'', 23)) t_noon (New 0 [] Ltime) 2 ''hello'' st_one =
     Some (st_one\<lparr>contents := (contents st_one)(0 := ''12:03:04 hello'' @ [CHR 0x0A])\<rparr>,
           (New 0 [] Ltime)\<lparr>buf := ''12:03:04 hello'' @ [CHR 0x0A]\<rparr>, None)"
proof -
  have v: "valid_time t_noon"
    by (simp add: valid_time_def t_noon_def)
  have r: "(0::int) \<le> 23" "(23::int) < 2 ^ 63"
    by simp_all
  have e: "spec_line Ltime [] t_noon ''/a/b/c/d.go'' 23 ''hello'' = ''12:03:04 hello'' @ [CHR 0x0A]"
    by code_simp
  show ?thesis
    using emit_line_format [OF v r, where l = "New 0 [] Ltime" and fname = "''/a/b/c/d.go''"
        and s = "''hello''" and Caller = "\<lambda>_. Some (''/a/b/c/d.go'', 23)" and d = 2
        and st = st_one] v e
    by (simp add: New_def st_one_def)
qed

text \<open>
  C4 as stated fails for the empty message: with flags \<open>Ltime\<close> at 12:03:04 the line is
  \<open>12:03:04\<close> and a space, with no newline at its end.
\<close>

theorem emit_line_format_counterexample:
  "build_line (New 0 [] Ltime) t_noon [] 0 [] = Some ''12:03:04 ''"
  by code_simp

subsection \<open>The short file name\<close>

lemma short_loop_scan:
  "a \<noteq> [] \<Longrightarrow> CHR ''/'' \<notin> set c \<Longrightarrow> length a \<le> i \<Longrightarrow> i < length (a @ CHR ''/'' # c) \<Longrightarrow>
   short_loop (a @ CHR ''/'' # c) i = c"
proof (induction i)
  case 0
  then show ?case by simp
next
  case (Suc j)
  show ?case
  proof (cases "Suc j = length a")
    case True
    then have "(a @ CHR ''/'' # c) ! Suc j = CHR ''/''"
      by (simp add: nth_append)
    then have "short_loop (a @ CHR ''/'' # c) (Suc j) = drop (Suc j + 1) (a @ CHR ''/'' # c)"
      by (subst short_loop.simps(2)) simp
    also have "\<dots> = c"
      using True by simp
    finally show ?thesis .
  next
    case False
    with Suc.prems have gt: "length a < Suc j" by simp
    then have "(a @ CHR ''/'' # c) ! Suc j = c ! (Suc j - length a - 1)"
      by (simp add: nth_append nth_Cons')
    moreover have "Suc j - length a - 1 < length c"
      using Suc.prems gt by simp
    ultimately have "(a @ CHR ''/'' # c) ! Suc j \<noteq> CHR ''/''"
      using Suc.prems(2) by (metis nth_mem)
    then show ?thesis
      using Suc gt by simp
  qed
qed

lemma short_loop_after_last:
  "a \<noteq> [] \<Longrightarrow> CHR ''/'' \<notin> set c \<Longrightarrow>
   short_loop (a @ CHR ''/'' # c) (length (a @ CHR ''/'' # c) - 1) = c"
  by (rule short_loop_scan) simp_all

lemma short_loop_keep:
  "(\<And>k. 0 < k \<Longrightarrow> k \<le> i \<Longrightarrow> f ! k \<noteq> CHR ''/'') \<Longrightarrow> short_loop f i = f"
  by (induction i) simp_all

lemma short_loop_leading_only:
  "CHR ''/'' \<notin> set c \<Longrightarrow> short_loop (CHR ''/'' # c) (length (CHR ''/'' # c) - 1) = CHR ''/'' # c"
proof (rule short_loop_keep)
  fix k
  assume c: "CHR ''/'' \<notin> set c" and k: "0 < k" "k \<le> length (CHR ''/'' # c) - 1"
  then have "c ! (k - Suc 0) \<in> set c"
    by (intro nth_mem) auto
  with c have "c ! (k - Suc 0) \<noteq> CHR ''/''"
    by metis
  with k show "(CHR ''/'' # c) ! k \<noteq> CHR ''/''"
    by (simp add: nth_Cons')
qed


text \<open>
  With \<open>Lshortfile\<close> the header shows what follows the last \<open>/\<close>, also when
  \<open>Llongfile\<close> is set as well, as long as that \<open>/\<close> is not the first byte of the path.
\<close>

lemma header_file_short:
  assumes "fl AND Lshortfile \<noteq> 0" and "a \<noteq> []" and "CHR ''/'' \<notin> set c"
    and "0 \<le> lnum" and "lnum < 2 ^ 63"
  shows "header_file fl b (a @ CHR ''/'' # c) lnum = Some (b @ c @ '':'' @ dec (nat lnum) @ '': '')"
  using assms short_loop_after_last [of a c]
  by (simp add: header_file_ok spec_file_def has_def)

text \<open>
  C6. The loop of \<open>formatHeader\<close> stops at \<open>i > 0\<close> and never looks at the first byte:
  for the path \<open>/d.go\<close>, whose only separator is that byte, the header shows the whole
  path and not \<open>d.go\<close>, with \<open>Lshortfile\<close> alone and with both file flags.
\<close>

theorem shortfile_leading_separator:
  "formatHeader (New 0 [] Lshortfile) [] t_noon ''/d.go'' 23 = Some ''/d.go:23: '' \<and>
   formatHeader (New 0 [] (Lshortfile OR Llongfile)) [] t_noon ''/d.go'' 23 = Some ''/d.go:23: ''"
  by code_simp

subsection \<open>The file system operations\<close>

lemma Close_frame:
  "files (fst (Close f st)) = files st"
  "contents (fst (Close f st)) = contents st"
  "inodes (fst (Close f st)) = inodes st"
  "currentOutFile (fst (Close f st)) = currentOutFile st"
  "length (handles (fst (Close f st))) = length (handles st)"
  by (simp_all add: Close_def)

lemma Rename_frame:
  "contents (fst (Rename a b st)) = contents st"
  "inodes (fst (Rename a b st)) = inodes st"
  "currentOutFile (fst (Rename a b st)) = currentOutFile st"
  "handles (fst (Rename a b st)) = handles st"
  by (simp_all add: Rename_def split: option.splits)

lemma Rename_result:
  "snd (Rename a b st) = None \<longleftrightarrow> files st a \<noteq> None"
  by (simp add: Rename_def split: option.splits)

subsection \<open>Construction\<close>

text \<open>
  C10. \<open>NewFileLogger\<close> and \<open>NewRollFileLogger\<close> open the path with
  \<open>O_APPEND|O_WRONLY\<close> and no \<open>O_CREATE\<close>: where no file exists they return the open
  error and no Logger, leaving the state as it was; they never add a file to the
  directory; and where a file exists the new handle is in exactly that mode.
\<close>

theorem construction_never_creates:
  "(files st p = None \<longrightarrow>
      NewRollFileLogger p m fl st = (st, Inl (PathError ''open'' p ENOENT)) \<and>
      NewFileLogger p fl st = (st, Inl (PathError ''open'' p ENOENT))) \<and>
   files (fst (NewRollFileLogger p m fl st)) = files st \<and>
   files (fst (NewFileLogger p fl st)) = files st \<and>
   (\<forall>ino. files st p = Some ino \<longrightarrow>
      (\<exists>st' l'. NewRollFileLogger p m fl st = (st', Inr l') \<and> out l' = length (handles st) \<and>
         handles st' = handles st @
           [\<lparr>f_name = p, f_inode = ino, f_flags = {O_APPEND, O_WRONLY}, f_closed = False\<rparr>]))"
  by (auto simp: NewRollFileLogger_def NewFileLogger_def OpenFile_def split: option.splits)


theorem construction_never_creates_witness:
  "NewRollFileLogger ''none.log'' 0 0 st_one = (st_one, Inl (PathError ''open'' ''none.log'' ENOENT)) \<and>
   NewFileLogger ''none.log'' 0 st_one = (st_one, Inl (PathError ''open'' ''none.log'' ENOENT)) \<and>
   (\<exists>st' l'. NewRollFileLogger ''ara.log'' 0 0 st_one = (st', Inr l') \<and> out l' = 1 \<and>
      handles st' = handles st_one @
        [\<lparr>f_name = ''ara.log'', f_inode = 0, f_flags = {O_APPEND, O_WRONLY}, f_closed = False\<rparr>])"
  using construction_never_creates [of st_one "''none.log''" 0 0]
    construction_never_creates [of st_one "''ara.log''" 0 0]
  by (simp add: st_one_def)

subsection \<open>rollFile\<close>



lemma go_string_noon:
  "go_string (Unix t_noon) = [CHR 0xEF, CHR 0xBF, CHR 0xBD]"
  "rolled_name ''ara.log'' t_noon =
     ''ara.log'' @ [CHR 0xDF, CHR 0xA8, CHR 0x01, CHR 0x02, CHR 0x0C, CHR 0x03, CHR 0x04]"
  by (simp_all add: rolled_name_def t_noon_def go_string_def utf8_encode_def char_of_def
      bit_iff_odd_drop_bit drop_bit_eq_div)

lemma roll_moved:
  "rollFile l_full t_noon st_moved =
     (st_moved\<lparr>handles :=
         [\<lparr>f_name = ''ara.log'', f_inode = 0, f_flags = {O_APPEND, O_WRONLY}, f_closed = True\<rparr>,
          \<lparr>f_name = ''ara.log'' @ [CHR 0xEF, CHR 0xBF, CHR 0xBD], f_inode = 1,
            f_flags = {O_APPEND, O_WRONLY}, f_closed = False\<rparr>],
        currentOutFile := Some 1\<rparr>,
      l_full\<lparr>buf := ''x'' @ [CHR 0x0A] @
          rolling_failed (LinkError ''rename'' ''ara.log'' (rolled_name ''ara.log'' t_noon) ENOENT),
        out := 1,
        size_l := of_nat (length (''x'' @ [CHR 0x0A] @
          rolling_failed (LinkError ''rename'' ''ara.log'' (rolled_name ''ara.log'' t_noon) ENOENT)))\<rparr>,
      None)"
  by (simp add: rollFile_def l_full_def st_moved_def Close_def Rename_def OpenFile_def
      go_string_noon Let_def)

lemma roll_log:
  "rollFile l_full t_noon st_log =
     (st_log\<lparr>files := [rolled_name ''ara.log'' t_noon \<mapsto> 0],
        handles :=
         [\<lparr>f_name = ''ara.log'', f_inode = 0, f_flags = {O_APPEND, O_WRONLY}, f_closed = True\<rparr>]\<rparr>,
      l_full\<lparr>size_l := 1048578\<rparr>,
      Some (PathError ''open'' ''ara.log'' ENOENT))"
  by (simp add: rollFile_def l_full_def st_log_def Close_def Rename_def OpenFile_def
      go_string_noon Let_def)






lemma dec_small: "n < 10 \<Longrightarrow> dec n = [digit_byte n]"
  by (subst dec.simps) simp

lemma dec_large: "10 \<le> n \<Longrightarrow> dec n = dec (n div 10) @ [digit_byte n]"
  by (subst dec.simps) simp

lemma dec_noon:
  "dec 2024 = ''2024''" "dec 1 = ''1''" "dec 2 = ''2''" "dec 12 = ''12''" "dec 3 = ''3''"
  "dec 4 = ''4''" "dec 1704196984 = ''1704196984''"
  by (simp_all add: dec_small dec_large digit_byte_def char_of_def bit_iff_odd_drop_bit
      drop_bit_eq_div)

text \<open>
  C2. The suffix of the rotated name is not made of decimal numbers: \<open>string(i)\<close> of an
  integer is the UTF-8 encoding of the code point \<open>i\<close>. On 2 January 2024 at 12:03:04
  the name is \<open>ara.log\<close> followed by the bytes DF A8 01 02 0C 03 04, not
  \<open>ara.log2024121234\<close>; and the fallback suffix is EF BF BD (U+FFFD, since the Unix time
  is no code point), not \<open>1704196984\<close>. The warning line is appended as claimed.
\<close>

theorem rolled_name_code_points:
  "rolled_name ''ara.log'' t_noon =
     ''ara.log'' @ [CHR 0xDF, CHR 0xA8, CHR 0x01, CHR 0x02, CHR 0x0C, CHR 0x03, CHR 0x04] \<and>
   rolled_name ''ara.log'' t_noon \<noteq>
     ''ara.log'' @ dec 2024 @ dec 1 @ dec 2 @ dec 12 @ dec 3 @ dec 4 \<and>
   files (fst (rollFile l_full t_noon st_log))
     (''ara.log'' @ [CHR 0xDF, CHR 0xA8, CHR 0x01, CHR 0x02, CHR 0x0C, CHR 0x03, CHR 0x04]) = Some 0 \<and>
   files (fst (rollFile l_full t_noon st_log)) ''ara.log2024121234'' = None \<and>
   f_name (handles (fst (rollFile l_full t_noon st_moved)) ! 1) =
     ''ara.log'' @ [CHR 0xEF, CHR 0xBF, CHR 0xBD] \<and>
   ''ara.log'' @ [CHR 0xEF, CHR 0xBF, CHR 0xBD] \<noteq> ''ara.log'' @ dec 1704196984 \<and>
   buf (fst (snd (rollFile l_full t_noon st_moved))) =
     ''x'' @ [CHR 0x0A] @ ''[XXX] ARALOGGER ERROR: Rolling file failed, rename ara.log ara.log'' @
     [CHR 0xDF, CHR 0xA8, CHR 0x01, CHR 0x02, CHR 0x0C, CHR 0x03, CHR 0x04] @
     '': no such file or directory'' @ [CHR 0x0A]"
  unfolding roll_moved roll_log
  by (simp add: st_moved_def st_log_def l_full_def go_string_noon dec_noon rolling_failed_def)



subsection \<open>Two Loggers and the shared currentOutFile\<close>

lemma big_msg_facts:
  "length big_msg = 1048577" "last big_msg = CHR ''x''" "big_msg \<noteq> []"
  by (simp_all add: big_msg_def)

lemma two_loggers_built:
  "NewRollFileLogger ''a.log'' 1048576 0 st_ab = (st_a, Inr logger_a)"
  "NewRollFileLogger ''b.log'' 1048576 0 st_a = (st_ab2, Inr logger_b)"
  by (simp_all add: NewRollFileLogger_def OpenFile_def st_ab_def st_a_def st_ab2_def logger_a_def
      logger_b_def)

lemma build_line_plain:
  "flag l = 0 \<Longrightarrow> prefix l = [] \<Longrightarrow>
   build_line l now fname lnum s = Some (if s \<noteq> [] \<and> last s \<noteq> CHR 0x0A then s @ [CHR 0x0A] else s)"
  by (simp add: build_line_def formatHeader_def)

lemma go_string_nonempty: "go_string i \<noteq> []"
  by (simp add: go_string_def utf8_encode_def)

lemma rolled_name_differs: "rolled_name p now \<noteq> p"
  by (simp add: rolled_name_def go_string_nonempty)

lemma logger_fields:
  "path logger_a = ''a.log''" "flag logger_a = 0" "prefix logger_a = []" "out logger_a = 0"
  "path logger_b = ''b.log''" "flag logger_b = 0" "prefix logger_b = []" "out logger_b = 1"
  by (simp_all add: logger_a_def logger_b_def)

lemma emit_a:
  "Output (\<lambda>_. None) t_noon logger_a 2 big_msg st_ab2 =
     Some (st_ab3, logger_a\<lparr>buf := big_msg @ [CHR 0x0A], size_l := 1048578\<rparr>,
           Some (PathError ''open'' ''a.log'' ENOENT))"
proof -
  have b: "build_line logger_a t_noon [] 0 big_msg = Some (big_msg @ [CHR 0x0A])"
    by (simp add: build_line_plain logger_fields big_msg_facts)
  have n: "rolled_name ''a.log'' t_noon \<noteq> ''a.log''"
    by (rule rolled_name_differs)
  have r: "rollFile (logger_a\<lparr>buf := big_msg @ [CHR 0x0A]\<rparr>) t_noon st_ab2 =
     (st_ab3, logger_a\<lparr>buf := big_msg @ [CHR 0x0A], size_l := 1048578\<rparr>,
      Some (PathError ''open'' ''a.log'' ENOENT))"
    using n
    by (simp add: rollFile_def logger_a_def st_ab2_def st_ab3_def st_ab_def Close_def Rename_def
        OpenFile_def big_msg_facts Let_def)
  show ?thesis
    by (simp add: Output_def logger_fields b r)
qed

lemma emit_b_before:
  "Output (\<lambda>_. None) t_noon logger_b 2 ''y'' st_ab2 =
     Some (st_ab2\<lparr>contents := (contents st_ab2)(1 := [CHR ''y'', CHR 0x0A])\<rparr>,
           logger_b\<lparr>buf := [CHR ''y'', CHR 0x0A], size_l := 2\<rparr>, None)"
proof -
  have b: "build_line logger_b t_noon [] 0 ''y'' = Some ([CHR ''y'', CHR 0x0A])"
    by (simp add: build_line_plain logger_fields)
  have r: "rollFile (logger_b\<lparr>buf := [CHR ''y'', CHR 0x0A]\<rparr>) t_noon st_ab2 =
     (st_ab2, logger_b\<lparr>buf := [CHR ''y'', CHR 0x0A], size_l := 2\<rparr>, None)"
    by (simp add: rollFile_def logger_b_def Let_def)
  show ?thesis
    by (simp add: Output_def logger_fields b r) (simp add: Write_def st_ab2_def st_ab_def)
qed

lemma emit_b_after:
  "Output (\<lambda>_. None) t_noon logger_b 2 ''y'' st_ab3 =
     Some (st_ab3, logger_b\<lparr>buf := [CHR ''y'', CHR 0x0A], size_l := 2\<rparr>,
           Some (PathError ''write'' ''b.log'' ErrClosed))"
proof -
  have b: "build_line logger_b t_noon [] 0 ''y'' = Some ([CHR ''y'', CHR 0x0A])"
    by (simp add: build_line_plain logger_fields)
  have r: "rollFile (logger_b\<lparr>buf := [CHR ''y'', CHR 0x0A]\<rparr>) t_noon st_ab3 =
     (st_ab3, logger_b\<lparr>buf := [CHR ''y'', CHR 0x0A], size_l := 2\<rparr>, None)"
    by (simp add: rollFile_def logger_b_def Let_def)
  show ?thesis
    by (simp add: Output_def logger_fields b r) (simp add: Write_def st_ab3_def)
qed

text \<open>
  C1. \<open>rollFile\<close> closes \<open>currentOutFile\<close>, the handle most recently opened by any
  Logger, not the handle of the Logger that rotates. With a Logger on \<open>a.log\<close> and a
  later one on \<open>b.log\<close>: the second can write; then an emit on the first crosses its
  threshold and closes the handle of the second; after that the same emit on the second
  fails with a write on a closed file.
\<close>

theorem rotation_closes_other_logger:
  "NewRollFileLogger ''a.log'' 1048576 0 st_ab = (st_a, Inr logger_a) \<and>
   NewRollFileLogger ''b.log'' 1048576 0 st_a = (st_ab2, Inr logger_b) \<and>
   Output (\<lambda>_. None) t_noon logger_b 2 ''y'' st_ab2 =
     Some (st_ab2\<lparr>contents := (contents st_ab2)(1 := [CHR ''y'', CHR 0x0A])\<rparr>,
           logger_b\<lparr>buf := [CHR ''y'', CHR 0x0A], size_l := 2\<rparr>, None) \<and>
   Output (\<lambda>_. None) t_noon logger_a 2 big_msg st_ab2 =
     Some (st_ab3, logger_a\<lparr>buf := big_msg @ [CHR 0x0A], size_l := 1048578\<rparr>,
           Some (PathError ''open'' ''a.log'' ENOENT)) \<and>
   \<not> f_closed (handles st_ab2 ! out logger_b) \<and>
   f_closed (handles st_ab3 ! out logger_b) \<and>
   Output (\<lambda>_. None) t_noon logger_b 2 ''y'' st_ab3 =
     Some (st_ab3, logger_b\<lparr>buf := [CHR ''y'', CHR 0x0A], size_l := 2\<rparr>,
           Some (PathError ''write'' ''b.log'' ErrClosed))"
  by (simp add: two_loggers_built emit_a emit_b_before emit_b_after logger_fields)
    (simp add: st_ab2_def st_ab3_def)

text \<open>
  C7. In the same process the emit on the first Logger returns the open error, writes
  nothing and leaves its sink field as it was, but the handle that field refers to has
  not been closed: the closed handle is the one of the other Logger.
\<close>

theorem open_failure_leaves_own_handle_open:
  "NewRollFileLogger ''a.log'' 1048576 0 st_ab = (st_a, Inr logger_a) \<and>
   NewRollFileLogger ''b.log'' 1048576 0 st_a = (st_ab2, Inr logger_b) \<and>
   Output (\<lambda>_. None) t_noon logger_a 2 big_msg st_ab2 =
     Some (st_ab3, logger_a\<lparr>buf := big_msg @ [CHR 0x0A], size_l := 1048578\<rparr>,
           Some (PathError ''open'' ''a.log'' ENOENT)) \<and>
   contents st_ab3 = contents st_ab2 \<and>
   out (logger_a\<lparr>buf := big_msg @ [CHR 0x0A], size_l := 1048578\<rparr>) = out logger_a \<and>
   \<not> f_closed (handles st_ab3 ! out logger_a) \<and>
   f_closed (handles st_ab3 ! out logger_b)"
  by (simp add: two_loggers_built emit_a logger_fields) (simp add: st_ab2_def st_ab3_def)

text \<open>
  What holds in general when \<open>rollFile\<close> returns an error: it is the error of the open,
  nothing has been written, the sink field is unchanged, and the closed handle is
  \<open>currentOutFile\<close>, which is the sink of the Logger only when no other Logger has
  opened a file since.
\<close>

lemma rollFile_error_frame:
  assumes "rollFile l now st = (st', l', Some e)"
  shows "contents st' = contents st \<and> out l' = out l \<and>
         e = PathError ''open'' (open_target l now st) ENOENT \<and>
         length (handles st') = length (handles st) \<and>
         (\<forall>f. currentOutFile st = Some f \<longrightarrow> f < length (handles st) \<longrightarrow>
              f_closed (handles st' ! f)) \<and>
         (\<forall>h. currentOutFile st \<noteq> Some h \<longrightarrow> handles st' ! h = handles st ! h)"
  using assms
  by (auto simp: rollFile_def Let_def Close_def Rename_def OpenFile_def open_target_def
      split: option.splits if_splits prod.splits sum.splits)

lemma Output_open_error:
  assumes "Output Caller now l d s st = Some (st', l', Some (PathError ''open'' p n))"
  shows "contents st' = contents st \<and> out l' = out l \<and>
         (\<forall>f. currentOutFile st = Some f \<longrightarrow> f < length (handles st) \<longrightarrow>
              f_closed (handles st' ! f)) \<and>
         (\<forall>h. currentOutFile st \<noteq> Some h \<longrightarrow> handles st' ! h = handles st ! h)"
  using assms
  by (auto simp: Output_def Let_def Write_def split: option.splits if_splits prod.splits
      dest!: rollFile_error_frame)


text \<open>
  Whenever the rename succeeds, the open that follows fails: the file has just been moved
  away from the path and the open does not create one.
\<close>

lemma rollFile_after_rename:
  assumes "maxsize l < size_l l + of_nat (length (buf l))" and "files st (path l) \<noteq> None"
  shows "snd (snd (rollFile l now st)) = Some (PathError ''open'' (path l) ENOENT)"
  using assms rolled_name_differs [of "path l" now]
  by (auto simp: rollFile_def Let_def Close_def Rename_def OpenFile_def
      split: option.splits if_splits prod.splits sum.splits)


subsection \<open>Reaching the threshold\<close>

text \<open>
  The Logger \<open>l_full\<close> of the examples is the one \<open>rollFile\<close> is called on when a
  Logger made by \<open>NewRollFileLogger\<close> has been given \<open>fill_msg\<close> and is then given
  \<open>x\<close>: the first emit brings the counter to the threshold without crossing it.
\<close>

lemma l_full_reached:
  "NewRollFileLogger ''ara.log'' 1048576 0 st_new = (st_log, Inr (l_full\<lparr>buf := [], size_l := 0\<rparr>))"
  "Output Caller now (l_full\<lparr>buf := [], size_l := 0\<rparr>) 2 fill_msg st_log =
     Some (st_log\<lparr>contents := (contents st_log)(0 := fill_msg @ [CHR 0x0A])\<rparr>,
           l_full\<lparr>buf := fill_msg @ [CHR 0x0A]\<rparr>, None)"
proof -
  show "NewRollFileLogger ''ara.log'' 1048576 0 st_new =
      (st_log, Inr (l_full\<lparr>buf := [], size_l := 0\<rparr>))"
    by (simp add: NewRollFileLogger_def OpenFile_def st_new_def st_log_def l_full_def)
  have f: "length fill_msg = 1048575" "last fill_msg = CHR ''x''" "fill_msg \<noteq> []"
    by (simp_all add: fill_msg_def)
  show "Output Caller now (l_full\<lparr>buf := [], size_l := 0\<rparr>) 2 fill_msg st_log =
     Some (st_log\<lparr>contents := (contents st_log)(0 := fill_msg @ [CHR 0x0A])\<rparr>,
           l_full\<lparr>buf := fill_msg @ [CHR 0x0A]\<rparr>, None)"
    by (simp add: Output_def build_line_plain rollFile_def Write_def l_full_def st_log_def f
        Let_def)
qed

subsection \<open>The second example of the specification\<close>

lemma example_shortfile:
  "build_line (New 0 [] Lshortfile) t_noon ''/a/b/c/d.go'' 23 ''x'' =
     Some [CHR ''d'', CHR ''.'', CHR ''g'', CHR ''o'', CHR '':'', CHR ''2'', CHR ''3'', CHR '':'',
           CHR '' '', CHR ''x'', CHR 0x0A]"
  by code_simp


end
